theory Spec2Isabelle
  imports Complex_Main
begin

section \<open>Data model\<close>

text \<open>
  The rows of the persistence store, as the service and the tests see them. Identifiers
  are the integers of the database; timestamps are kept as opaque integers.
\<close>

datatype TicketStatus = RESERVED | PAID

record enrollment =
  enrollment_id :: int
  enrollment_userId :: int
  Address :: "string list"

record ticketType =
  ticketType_id :: int
  isRemote :: bool
  includesHotel :: bool

record ticket =
  ticket_id :: int
  ticket_ticketTypeId :: int
  ticket_enrollmentId :: int
  ticket_status :: TicketStatus

text \<open>A ticket as returned with \<^verbatim>\<open>include: { TicketType: true }\<close>.\<close>

record ticketWithType = ticket +
  TicketType :: ticketType

record hotel =
  hotel_id :: int
  hotel_name :: string
  hotel_image :: string
  hotel_createdAt :: int
  hotel_updatedAt :: int

record room =
  room_id :: int
  room_name :: string
  room_capacity :: int
  room_hotelId :: int
  room_createdAt :: int
  room_updatedAt :: int

text \<open>A hotel as returned with \<^verbatim>\<open>include: { Rooms: true }\<close>.\<close>

record hotelWithRooms = hotel +
  Rooms :: "room list"

record database =
  enrollment_rows :: "enrollment list"
  ticket_rows :: "ticket list"
  ticketType_rows :: "ticketType list"
  hotel_rows :: "hotel list"
  room_rows :: "room list"

text \<open>
  A JavaScript number, as far as a comparison with a stored integer id can tell: the
  not-a-number value, the two infinities, and the finite values (every finite double is a
  rational).
\<close>

datatype jsnumber = NaN | PosInfinity | NegInfinity | Finite rat

text \<open>
  The queries sent to the persistence client. The world of a request is the store together
  with the queries issued so far, in order.
\<close>

datatype query =
    Enrollment_findFirst int
  | Ticket_findFirst int
  | Hotel_findMany
  | Hotel_findMany_where jsnumber

record world =
  store :: database
  issued :: "query list"

definition send_query :: "query \<Rightarrow> world \<Rightarrow> world" where
  "send_query q w = w\<lparr>issued := issued w @ [q]\<rparr>"

section \<open>Errors\<close>

text \<open>An error object; the controllers look at its \<^verbatim>\<open>name\<close> only.\<close>

datatype error = ApplicationError (name: string)

text \<open>
  Modelled from the spec: the module \<^verbatim>\<open>@/errors\<close> is not among the sources. The spec
  has two named error kinds, NotFound and PaymentRequired; the names are the ones the
  controllers compare with.
\<close>

definition notFoundError :: error where
  "notFoundError = ApplicationError ''NotFoundError''"

definition paymentRequiredError :: error where
  "paymentRequiredError = ApplicationError ''PaymentRequiredError''"

section \<open>Repositories\<close>

text \<open>
  Modelled from the spec: \<^verbatim>\<open>enrollmentRepository.findWithAddressByUserId\<close> is not among
  the sources. Enrollment lookup: given a user identifier, returns the user's enrollment
  record (with address) or nothing. It is one read of the store.
\<close>

definition findWithAddressByUserId :: "int \<Rightarrow> world \<Rightarrow> enrollment option \<times> world" where
  "findWithAddressByUserId userId w =
     (find (\<lambda>e. enrollment_userId e = userId) (enrollment_rows (store w)),
      send_query (Enrollment_findFirst userId) w)"

definition withTicketType :: "ticket \<Rightarrow> ticketType \<Rightarrow> ticketWithType" where
  "withTicketType t tt =
     \<lparr>ticket_id = ticket_id t, ticket_ticketTypeId = ticket_ticketTypeId t,
      ticket_enrollmentId = ticket_enrollmentId t, ticket_status = ticket_status t,
      TicketType = tt\<rparr>"

text \<open>
  Modelled from the spec: \<^verbatim>\<open>ticketRepository.findTicketByEnrollmentId\<close> is not among the
  sources. Ticket lookup: given an enrollment identifier, returns the associated ticket and
  its ticket type (the remote and includes-hotel flags) or nothing. It is one read of the
  store.
\<close>

definition findTicketByEnrollmentId :: "int \<Rightarrow> world \<Rightarrow> ticketWithType option \<times> world" where
  "findTicketByEnrollmentId enrollmentId w =
     (case find (\<lambda>t. ticket_enrollmentId t = enrollmentId) (ticket_rows (store w)) of
        None \<Rightarrow> None
      | Some t \<Rightarrow>
          (case find (\<lambda>tt. ticketType_id tt = ticket_ticketTypeId t) (ticketType_rows (store w)) of
             None \<Rightarrow> None
           | Some tt \<Rightarrow> Some (withTicketType t tt)),
      send_query (Ticket_findFirst enrollmentId) w)"

text \<open>\<^verbatim>\<open>prisma.hotel.findMany()\<close>: every hotel row, as stored.\<close>

definition findHotels :: "world \<Rightarrow> hotel list \<times> world" where
  "findHotels w = (hotel_rows (store w), send_query Hotel_findMany w)"

text \<open>
  Modelled from the spec: the persistence client is not among the sources. It exposes
  simple find-by-id operations, and a hotelId that is not an integer of the store matches
  no record: the filter \<^verbatim>\<open>where: { id }\<close> keeps the rows whose id equals the number.
\<close>

definition where_id :: "jsnumber \<Rightarrow> int \<Rightarrow> bool" where
  "where_id n i = (n = Finite (of_int i))"

definition withRooms :: "hotel \<Rightarrow> room list \<Rightarrow> hotelWithRooms" where
  "withRooms h rs =
     \<lparr>hotel_id = hotel_id h, hotel_name = hotel_name h, hotel_image = hotel_image h,
      hotel_createdAt = hotel_createdAt h, hotel_updatedAt = hotel_updatedAt h,
      Rooms = rs\<rparr>"

text \<open>\<^verbatim>\<open>include: { Rooms: true }\<close>: the rooms whose hotelId is the hotel's id.\<close>

definition include_Rooms :: "database \<Rightarrow> hotel \<Rightarrow> hotelWithRooms" where
  "include_Rooms db h = withRooms h (filter (\<lambda>r. room_hotelId r = hotel_id h) (room_rows db))"

definition findHotelRooms :: "jsnumber \<Rightarrow> world \<Rightarrow> hotelWithRooms list \<times> world" where
  "findHotelRooms id' w =
     (map (include_Rooms (store w)) (filter (\<lambda>h. where_id id' (hotel_id h)) (hotel_rows (store w))),
      send_query (Hotel_findMany_where id') w)"

section \<open>Service\<close>

text \<open>
  JavaScript's \<^verbatim>\<open>!\<close> on an array, as in \<^verbatim>\<open>if (!hotels)\<close>: \<^verbatim>\<open>findMany\<close> always
  gives an array, an array is an object, and every object is truthy, the empty array too.
\<close>

definition not_array :: "'a list \<Rightarrow> bool" where
  "not_array xs = False"

definition getHotels :: "int \<Rightarrow> world \<Rightarrow> (error + hotel list) \<times> world" where
  "getHotels userId w =
     (case findWithAddressByUserId userId w of
        (None, w1) \<Rightarrow> (Inl notFoundError, w1)
      | (Some enrollment, w1) \<Rightarrow>
          (case findTicketByEnrollmentId (enrollment_id enrollment) w1 of
             (None, w2) \<Rightarrow> (Inl notFoundError, w2)
           | (Some ticket, w2) \<Rightarrow>
               if ticket_status ticket \<noteq> PAID \<or> isRemote (TicketType ticket)
                  \<or> \<not> includesHotel (TicketType ticket)
               then (Inl paymentRequiredError, w2)
               else
                 (case findHotels w2 of
                    (hotels, w3) \<Rightarrow>
                      if not_array hotels then (Inl notFoundError, w3)
                      else (Inr hotels, w3))))"

text \<open>
  \<^verbatim>\<open>Number\<close> is the built-in coercion of the language; the service is read with the
  coercion as its first argument.
\<close>

definition getHotelRooms ::
  "(string \<Rightarrow> jsnumber) \<Rightarrow> string \<Rightarrow> world \<Rightarrow> (error + hotelWithRooms list) \<times> world" where
  "getHotelRooms Number hotelId w =
     (case findHotelRooms (Number hotelId) w of
        (hotelRooms, w1) \<Rightarrow>
          if length hotelRooms = 0 then (Inl notFoundError, w1)
          else (Inr hotelRooms, w1))"

section \<open>Controllers\<close>

text \<open>The status codes of \<^verbatim>\<open>http-status\<close>.\<close>

definition OK :: nat where "OK = 200"
definition BAD_REQUEST :: nat where "BAD_REQUEST = 400"
definition PAYMENT_REQUIRED :: nat where "PAYMENT_REQUIRED = 402"
definition NOT_FOUND :: nat where "NOT_FOUND = 404"

text \<open>
  What a controller answers: \<^verbatim>\<open>res.status(c).send(body)\<close> or \<^verbatim>\<open>res.sendStatus(c)\<close>.
\<close>

datatype 'a response = Send nat 'a | SendStatus nat

fun status :: "'a response \<Rightarrow> nat" where
  "status (Send c b) = c"
| "status (SendStatus c) = c"

record request =
  request_userId :: int
  request_params_hotelId :: string

text \<open>The \<^verbatim>\<open>catch\<close> block of the controller \<^verbatim>\<open>getHotels\<close>.\<close>

definition getHotels_catch :: "error \<Rightarrow> 'a response" where
  "getHotels_catch error =
     (if name error = ''NotFoundError'' then SendStatus NOT_FOUND
      else if name error = ''PaymentRequiredError'' then SendStatus PAYMENT_REQUIRED
      else SendStatus BAD_REQUEST)"

definition controller_getHotels :: "request \<Rightarrow> world \<Rightarrow> hotel list response \<times> world" where
  "controller_getHotels req w =
     (case getHotels (request_userId req) w of
        (Inr hotels, w1) \<Rightarrow> (Send OK hotels, w1)
      | (Inl error, w1) \<Rightarrow> (getHotels_catch error, w1))"

text \<open>The \<^verbatim>\<open>catch\<close> block of the controller \<^verbatim>\<open>getHotelRooms\<close>.\<close>

definition getHotelRooms_catch :: "error \<Rightarrow> 'a response" where
  "getHotelRooms_catch error =
     (if name error = ''NotFoundError'' then SendStatus NOT_FOUND
      else SendStatus BAD_REQUEST)"

definition controller_getHotelRooms ::
  "(string \<Rightarrow> jsnumber) \<Rightarrow> request \<Rightarrow> world \<Rightarrow> hotelWithRooms list response \<times> world" where
  "controller_getHotelRooms Number req w =
     (case getHotelRooms Number (request_params_hotelId req) w of
        (Inr hotelRooms, w1) \<Rightarrow> (Send OK hotelRooms, w1)
      | (Inl error, w1) \<Rightarrow> (getHotelRooms_catch error, w1))"

text \<open>
  The translation of an error to a status code as the specification words it: NotFound is
  404, PaymentRequired is 402, any other error is 400.
\<close>

definition status_by_kind :: "error \<Rightarrow> nat" where
  "status_by_kind e =
     (if name e = ''NotFoundError'' then 404
      else if name e = ''PaymentRequiredError'' then 402
      else 400)"

section \<open>A sample store\<close>

text \<open>
  The scenario of the tests: user 1 is enrolled (enrollment 10) and holds a paid ticket of
  a type that is not remote and includes the hotel; one hotel, Beach Resort, with two
  rooms. User 2 is enrolled and holds a reserved ticket; user 3 is enrolled without a
  ticket.
\<close>

definition sample_db :: database where
  "sample_db =
     \<lparr>enrollment_rows =
        [\<lparr>enrollment_id = 10, enrollment_userId = 1, Address = [''Rua A'']\<rparr>,
         \<lparr>enrollment_id = 20, enrollment_userId = 2, Address = [''Rua B'']\<rparr>,
         \<lparr>enrollment_id = 30, enrollment_userId = 3, Address = []\<rparr>],
      ticket_rows =
        [\<lparr>ticket_id = 100, ticket_ticketTypeId = 7, ticket_enrollmentId = 10, ticket_status = PAID\<rparr>,
         \<lparr>ticket_id = 200, ticket_ticketTypeId = 7, ticket_enrollmentId = 20, ticket_status = RESERVED\<rparr>],
      ticketType_rows = [\<lparr>ticketType_id = 7, isRemote = False, includesHotel = True\<rparr>],
      hotel_rows =
        [\<lparr>hotel_id = 1, hotel_name = ''Beach Resort'', hotel_image = ''beach.png'',
          hotel_createdAt = 0, hotel_updatedAt = 0\<rparr>],
      room_rows =
        [\<lparr>room_id = 1, room_name = ''101'', room_capacity = 2, room_hotelId = 1,
          room_createdAt = 0, room_updatedAt = 0\<rparr>,
         \<lparr>room_id = 2, room_name = ''102'', room_capacity = 3, room_hotelId = 1,
          room_createdAt = 0, room_updatedAt = 0\<rparr>]\<rparr>"

definition sample_world :: world where
  "sample_world = \<lparr>store = sample_db, issued = []\<rparr>"

text \<open>The same store after every hotel has been deleted.\<close>

definition no_hotel_world :: world where
  "no_hotel_world = \<lparr>store = sample_db\<lparr>hotel_rows := []\<rparr>, issued = []\<rparr>"

text \<open>
  A coercion for the examples: it agrees with \<^verbatim>\<open>Number\<close> on the three strings used,
  \<^verbatim>\<open>Number("1") = 1\<close>, \<^verbatim>\<open>Number("0") = 0\<close> and \<^verbatim>\<open>Number("abc") = NaN\<close>.
\<close>

definition sample_Number :: "string \<Rightarrow> jsnumber" where
  "sample_Number s = (if s = ''1'' then Finite 1 else if s = ''0'' then Finite 0 else NaN)"

section \<open>Auxiliary facts\<close>

lemma notFound_name: "name notFoundError = ''NotFoundError''"
  by (simp add: notFoundError_def)

lemma paymentRequired_name: "name paymentRequiredError = ''PaymentRequiredError''"
  by (simp add: paymentRequiredError_def)

lemma notFound_neq_paymentRequired: "notFoundError \<noteq> paymentRequiredError"
  by (simp add: notFoundError_def paymentRequiredError_def)

lemma store_send_query: "store (send_query q w) = store w"
  by (simp add: send_query_def)

lemma issued_send_query: "issued (send_query q w) = issued w @ [q]"
  by (simp add: send_query_def)

lemma snd_findWithAddressByUserId:
  "snd (findWithAddressByUserId uid w) = send_query (Enrollment_findFirst uid) w"
  by (simp add: findWithAddressByUserId_def)

lemma snd_findTicketByEnrollmentId:
  "snd (findTicketByEnrollmentId eid w) = send_query (Ticket_findFirst eid) w"
  by (simp add: findTicketByEnrollmentId_def)

lemma fst_findTicket_store:
  "store w = store w' \<Longrightarrow>
   fst (findTicketByEnrollmentId eid w) = fst (findTicketByEnrollmentId eid w')"
  by (simp add: findTicketByEnrollmentId_def split: option.splits)

text \<open>The service, case by case.\<close>

lemma getHotels_no_enrollment:
  "fst (findWithAddressByUserId uid w) = None \<Longrightarrow>
   getHotels uid w = (Inl notFoundError, send_query (Enrollment_findFirst uid) w)"
  by (simp add: getHotels_def findWithAddressByUserId_def)

lemma getHotels_no_ticket:
  assumes "fst (findWithAddressByUserId uid w) = Some enrollment"
    and "fst (findTicketByEnrollmentId (enrollment_id enrollment) w) = None"
  shows "getHotels uid w =
     (Inl notFoundError,
      send_query (Ticket_findFirst (enrollment_id enrollment))
        (send_query (Enrollment_findFirst uid) w))"
proof -
  let ?w1 = "send_query (Enrollment_findFirst uid) w"
  have e: "findWithAddressByUserId uid w = (Some enrollment, ?w1)"
    using assms(1) snd_findWithAddressByUserId [of uid w] by (simp add: prod_eq_iff)
  have "fst (findTicketByEnrollmentId (enrollment_id enrollment) ?w1) = None"
    using assms(2) fst_findTicket_store [of ?w1 w] by (simp add: store_send_query)
  then have t: "findTicketByEnrollmentId (enrollment_id enrollment) ?w1 =
      (None, send_query (Ticket_findFirst (enrollment_id enrollment)) ?w1)"
    using snd_findTicketByEnrollmentId [of "enrollment_id enrollment" ?w1]
    by (simp add: prod_eq_iff)
  show ?thesis by (simp add: getHotels_def e t)
qed

lemma getHotels_with_ticket:
  assumes "fst (findWithAddressByUserId uid w) = Some enrollment"
    and "fst (findTicketByEnrollmentId (enrollment_id enrollment) w) = Some ticket"
  shows "getHotels uid w =
     (let w2 = send_query (Ticket_findFirst (enrollment_id enrollment))
                 (send_query (Enrollment_findFirst uid) w)
      in if ticket_status ticket \<noteq> PAID \<or> isRemote (TicketType ticket)
            \<or> \<not> includesHotel (TicketType ticket)
         then (Inl paymentRequiredError, w2)
         else (Inr (hotel_rows (store w)), send_query Hotel_findMany w2))"
proof -
  let ?w1 = "send_query (Enrollment_findFirst uid) w"
  have e: "findWithAddressByUserId uid w = (Some enrollment, ?w1)"
    using assms(1) snd_findWithAddressByUserId [of uid w] by (simp add: prod_eq_iff)
  have "fst (findTicketByEnrollmentId (enrollment_id enrollment) ?w1) = Some ticket"
    using assms(2) fst_findTicket_store [of ?w1 w] by (simp add: store_send_query)
  then have t: "findTicketByEnrollmentId (enrollment_id enrollment) ?w1 =
      (Some ticket, send_query (Ticket_findFirst (enrollment_id enrollment)) ?w1)"
    using snd_findTicketByEnrollmentId [of "enrollment_id enrollment" ?w1]
    by (simp add: prod_eq_iff)
  show ?thesis
    by (simp add: getHotels_def e t findHotels_def not_array_def store_send_query Let_def)
qed

lemma getHotels_store: "store (snd (getHotels uid w)) = store w"
proof (cases "fst (findWithAddressByUserId uid w)")
  case None
  then show ?thesis by (simp add: getHotels_no_enrollment store_send_query)
next
  case (Some enrollment)
  show ?thesis
  proof (cases "fst (findTicketByEnrollmentId (enrollment_id enrollment) w)")
    case None
    with Some show ?thesis by (simp add: getHotels_no_ticket store_send_query)
  next
    case (Some ticket)
    with \<open>fst (findWithAddressByUserId uid w) = Some enrollment\<close> show ?thesis
      by (simp add: getHotels_with_ticket store_send_query Let_def)
  qed
qed

lemma getHotelRooms_eq:
  "getHotelRooms Number hotelId w =
     (let found = filter (\<lambda>h. where_id (Number hotelId) (hotel_id h)) (hotel_rows (store w))
      in (if found = [] then Inl notFoundError else Inr (map (include_Rooms (store w)) found),
          send_query (Hotel_findMany_where (Number hotelId)) w))"
  by (simp add: getHotelRooms_def findHotelRooms_def Let_def)

lemma getHotelRooms_store: "store (snd (getHotelRooms Number hotelId w)) = store w"
  by (simp add: getHotelRooms_eq Let_def store_send_query)

lemma getHotelRooms_error: "fst (getHotelRooms Number hotelId w) = Inl e \<Longrightarrow> e = notFoundError"
  by (simp add: getHotelRooms_eq Let_def split: if_splits)

lemma filter_key_distinct:
  "distinct (map f xs) \<Longrightarrow> h \<in> set xs \<Longrightarrow> filter (\<lambda>x. f x = f h) xs = [h]"
proof (induction xs)
  case Nil
  then show ?case by simp
next
  case (Cons x xs)
  show ?case
  proof (cases "x = h")
    case True
    with Cons.prems(1) have "\<forall>y\<in>set xs. f y \<noteq> f h" by (auto simp: image_iff)
    then have "filter (\<lambda>x. f x = f h) xs = []" by (simp add: filter_empty_conv)
    with True show ?thesis by simp
  next
    case False
    with Cons.prems have "h \<in> set xs" and "f x \<noteq> f h" by auto
    with Cons show ?thesis by simp
  qed
qed

lemma where_id_of_int: "where_id (Finite (of_int i)) j \<longleftrightarrow> j = i"
  by (auto simp: where_id_def)

lemma getHotels_catch_kind: "getHotels_catch e = SendStatus (status_by_kind e)"
  by (simp add: getHotels_catch_def status_by_kind_def NOT_FOUND_def PAYMENT_REQUIRED_def
      BAD_REQUEST_def)

lemma getHotelRooms_catch_kind:
  "name e \<noteq> ''PaymentRequiredError'' \<Longrightarrow> getHotelRooms_catch e = SendStatus (status_by_kind e)"
  by (simp add: getHotelRooms_catch_def status_by_kind_def NOT_FOUND_def BAD_REQUEST_def)

lemma controller_getHotels_store: "store (snd (controller_getHotels req w)) = store w"
proof (cases "getHotels (request_userId req) w")
  case (Pair r w1)
  then have "store w1 = store w"
    using getHotels_store [of "request_userId req" w] by simp
  with Pair show ?thesis
    by (simp add: controller_getHotels_def split: sum.splits)
qed

lemma controller_getHotelRooms_store:
  "store (snd (controller_getHotelRooms Number req w)) = store w"
proof (cases "getHotelRooms Number (request_params_hotelId req) w")
  case (Pair r w1)
  then have "store w1 = store w"
    using getHotelRooms_store [of Number "request_params_hotelId req" w] by simp
  with Pair show ?thesis
    by (simp add: controller_getHotelRooms_def split: sum.splits)
qed

lemma getHotelRooms_fst_store:
  "hotel_rows (store w) = hotel_rows (store w') \<Longrightarrow> room_rows (store w) = room_rows (store w') \<Longrightarrow>
   fst (getHotelRooms Number hotelId w) = fst (getHotelRooms Number hotelId w')"
  by (simp add: getHotelRooms_eq Let_def include_Rooms_def)

lemmas sample_defs =
  sample_world_def no_hotel_world_def sample_db_def sample_Number_def
  findWithAddressByUserId_def findTicketByEnrollmentId_def findHotels_def findHotelRooms_def
  send_query_def withTicketType_def withRooms_def include_Rooms_def where_id_def not_array_def
  getHotels_def getHotelRooms_def notFoundError_def paymentRequiredError_def
  controller_getHotels_def controller_getHotelRooms_def getHotels_catch_def
  getHotelRooms_catch_def OK_def NOT_FOUND_def PAYMENT_REQUIRED_def BAD_REQUEST_def

section \<open>The claims\<close>

text \<open>
  Claim C1. When the enrollment lookup and the ticket lookup both succeed, \<^verbatim>\<open>getHotels\<close>
  fails with PaymentRequired exactly when the ticket is not paid, or its type is remote, or
  its type does not include the hotel; with a paid, non-remote, hotel-including ticket no
  PaymentRequired error is raised.
\<close>

theorem getHotels_PaymentRequired_iff:
  assumes "fst (findWithAddressByUserId uid w) = Some enrollment"
    and "fst (findTicketByEnrollmentId (enrollment_id enrollment) w) = Some ticket"
  shows "((\<exists>e. fst (getHotels uid w) = Inl e \<and> name e = ''PaymentRequiredError'') \<longleftrightarrow>
            (ticket_status ticket \<noteq> PAID \<or> isRemote (TicketType ticket)
             \<or> \<not> includesHotel (TicketType ticket)))
       \<and> (ticket_status ticket = PAID \<and> \<not> isRemote (TicketType ticket)
             \<and> includesHotel (TicketType ticket) \<longrightarrow>
           (\<forall>e. fst (getHotels uid w) = Inl e \<longrightarrow> name e \<noteq> ''PaymentRequiredError''))"
  by (simp add: getHotels_with_ticket [OF assms] Let_def paymentRequired_name)

theorem getHotels_PaymentRequired_iff_witness:
  "(\<exists>e. fst (getHotels 2 sample_world) = Inl e \<and> name e = ''PaymentRequiredError'')
   \<and> fst (getHotels 1 sample_world) \<noteq> Inl paymentRequiredError"
proof -
  have e2: "fst (findWithAddressByUserId 2 sample_world) =
      Some \<lparr>enrollment_id = 20, enrollment_userId = 2, Address = [''Rua B'']\<rparr>"
    by (simp add: sample_defs)
  have t2: "fst (findTicketByEnrollmentId
        (enrollment_id \<lparr>enrollment_id = 20, enrollment_userId = 2, Address = [''Rua B'']\<rparr>)
        sample_world) =
      Some \<lparr>ticket_id = 200, ticket_ticketTypeId = 7, ticket_enrollmentId = 20,
            ticket_status = RESERVED,
            TicketType = \<lparr>ticketType_id = 7, isRemote = False, includesHotel = True\<rparr>\<rparr>"
    by (simp add: sample_defs)
  have e1: "fst (findWithAddressByUserId 1 sample_world) =
      Some \<lparr>enrollment_id = 10, enrollment_userId = 1, Address = [''Rua A'']\<rparr>"
    by (simp add: sample_defs)
  have t1: "fst (findTicketByEnrollmentId
        (enrollment_id \<lparr>enrollment_id = 10, enrollment_userId = 1, Address = [''Rua A'']\<rparr>)
        sample_world) =
      Some \<lparr>ticket_id = 100, ticket_ticketTypeId = 7, ticket_enrollmentId = 10,
            ticket_status = PAID,
            TicketType = \<lparr>ticketType_id = 7, isRemote = False, includesHotel = True\<rparr>\<rparr>"
    by (simp add: sample_defs)
  have n: "name paymentRequiredError = ''PaymentRequiredError''"
    by (simp add: paymentRequiredError_def)
  show ?thesis
    using n getHotels_PaymentRequired_iff [OF e2 t2] getHotels_PaymentRequired_iff [OF e1 t1]
    by auto
qed

text \<open>
  Claim C2. With a paid, non-remote, hotel-including ticket and no hotel in the store, the
  claim expects NotFound. The service tests \<^verbatim>\<open>!hotels\<close> on an array, which is never
  true: whenever the ticket is eligible and the store has no hotel, it returns the empty
  collection, and the controller answers 200 with an empty list as body.
\<close>

theorem getHotels_empty_collection_returned:
  assumes "fst (findWithAddressByUserId uid w) = Some enrollment"
    and "fst (findTicketByEnrollmentId (enrollment_id enrollment) w) = Some ticket"
    and "ticket_status ticket = PAID"
    and "\<not> isRemote (TicketType ticket)"
    and "includesHotel (TicketType ticket)"
    and "hotel_rows (store w) = []"
  shows "fst (getHotels uid w) = Inr []"
  using assms(3-6) by (simp add: getHotels_with_ticket [OF assms(1,2)] Let_def)

theorem getHotels_empty_collection_returned_witness:
  "fst (getHotels 1 no_hotel_world) = Inr []
   \<and> fst (controller_getHotels \<lparr>request_userId = 1, request_params_hotelId = ''''\<rparr> no_hotel_world)
       = Send 200 []"
proof -
  have e1: "fst (findWithAddressByUserId 1 no_hotel_world) =
      Some \<lparr>enrollment_id = 10, enrollment_userId = 1, Address = [''Rua A'']\<rparr>"
    by (simp add: sample_defs)
  have t1: "fst (findTicketByEnrollmentId
        (enrollment_id \<lparr>enrollment_id = 10, enrollment_userId = 1, Address = [''Rua A'']\<rparr>)
        no_hotel_world) =
      Some \<lparr>ticket_id = 100, ticket_ticketTypeId = 7, ticket_enrollmentId = 10,
            ticket_status = PAID,
            TicketType = \<lparr>ticketType_id = 7, isRemote = False, includesHotel = True\<rparr>\<rparr>"
    by (simp add: sample_defs)
  have h: "hotel_rows (store no_hotel_world) = []"
    by (simp add: no_hotel_world_def)
  have s: "fst (getHotels 1 no_hotel_world) = Inr []"
    using getHotels_empty_collection_returned [OF e1 t1] h by simp
  then obtain w1 where "getHotels 1 no_hotel_world = (Inr [], w1)"
    by (cases "getHotels 1 no_hotel_world") simp
  then have "fst (controller_getHotels
      \<lparr>request_userId = 1, request_params_hotelId = ''''\<rparr> no_hotel_world) = Send 200 []"
    by (simp add: controller_getHotels_def OK_def)
  with s show ?thesis by simp
qed

text \<open>
  Claim C3. \<^verbatim>\<open>getHotels\<close> fails with NotFound when the enrollment lookup returns nothing,
  and when the enrollment exists but the ticket lookup for its id returns nothing. In the
  first case the enrollment query is the only query issued; in the second the enrollment
  query and the ticket query are the only ones: no hotel is fetched.
\<close>

theorem getHotels_NotFound_first_failing_lookup:
  "(fst (findWithAddressByUserId uid w) = None \<longrightarrow>
      fst (getHotels uid w) = Inl notFoundError
      \<and> issued (snd (getHotels uid w)) = issued w @ [Enrollment_findFirst uid])
   \<and> (fst (findWithAddressByUserId uid w) = Some enrollment
      \<and> fst (findTicketByEnrollmentId (enrollment_id enrollment) w) = None \<longrightarrow>
      fst (getHotels uid w) = Inl notFoundError
      \<and> issued (snd (getHotels uid w)) =
          issued w @ [Enrollment_findFirst uid, Ticket_findFirst (enrollment_id enrollment)])"
  by (simp add: getHotels_no_enrollment getHotels_no_ticket issued_send_query)

theorem getHotels_NotFound_first_failing_lookup_witness:
  "fst (findWithAddressByUserId 4 sample_world) = None
   \<and> fst (getHotels 4 sample_world) = Inl notFoundError
   \<and> issued (snd (getHotels 4 sample_world)) = [Enrollment_findFirst 4]
   \<and> fst (getHotels 3 sample_world) = Inl notFoundError
   \<and> issued (snd (getHotels 3 sample_world)) = [Enrollment_findFirst 3, Ticket_findFirst 30]"
proof -
  have e4: "fst (findWithAddressByUserId 4 sample_world) = None"
    by (simp add: sample_defs)
  have e3: "fst (findWithAddressByUserId 3 sample_world) =
      Some \<lparr>enrollment_id = 30, enrollment_userId = 3, Address = []\<rparr>"
    by (simp add: sample_defs)
  have t3: "fst (findTicketByEnrollmentId
        (enrollment_id \<lparr>enrollment_id = 30, enrollment_userId = 3, Address = []\<rparr>)
        sample_world) = None"
    by (simp add: sample_defs)
  have i: "issued sample_world = []"
    by (simp add: sample_world_def)
  show ?thesis
    using e4 e3 t3 i
      getHotels_NotFound_first_failing_lookup [of 4 sample_world]
      getHotels_NotFound_first_failing_lookup
        [of 3 sample_world "\<lparr>enrollment_id = 30, enrollment_userId = 3, Address = []\<rparr>"]
    by simp
qed

text \<open>
  Claim C4. For a user with a paid, non-remote, hotel-including ticket, when at least one
  hotel exists, \<^verbatim>\<open>getHotels\<close> succeeds with all the hotel rows of the store, as stored.
\<close>

theorem getHotels_returns_all_hotels:
  assumes "fst (findWithAddressByUserId uid w) = Some enrollment"
    and "fst (findTicketByEnrollmentId (enrollment_id enrollment) w) = Some ticket"
    and "ticket_status ticket = PAID"
    and "\<not> isRemote (TicketType ticket)"
    and "includesHotel (TicketType ticket)"
    and "hotel_rows (store w) \<noteq> []"
  shows "fst (getHotels uid w) = Inr (hotel_rows (store w))"
  using assms(3-5) by (simp add: getHotels_with_ticket [OF assms(1,2)] Let_def)

theorem getHotels_returns_all_hotels_witness:
  "fst (getHotels 1 sample_world) =
     Inr [\<lparr>hotel_id = 1, hotel_name = ''Beach Resort'', hotel_image = ''beach.png'',
           hotel_createdAt = 0, hotel_updatedAt = 0\<rparr>]"
proof -
  have e1: "fst (findWithAddressByUserId 1 sample_world) =
      Some \<lparr>enrollment_id = 10, enrollment_userId = 1, Address = [''Rua A'']\<rparr>"
    by (simp add: sample_defs)
  have t1: "fst (findTicketByEnrollmentId
        (enrollment_id \<lparr>enrollment_id = 10, enrollment_userId = 1, Address = [''Rua A'']\<rparr>)
        sample_world) =
      Some \<lparr>ticket_id = 100, ticket_ticketTypeId = 7, ticket_enrollmentId = 10,
            ticket_status = PAID,
            TicketType = \<lparr>ticketType_id = 7, isRemote = False, includesHotel = True\<rparr>\<rparr>"
    by (simp add: sample_defs)
  have h: "hotel_rows (store sample_world) =
     [\<lparr>hotel_id = 1, hotel_name = ''Beach Resort'', hotel_image = ''beach.png'',
       hotel_createdAt = 0, hotel_updatedAt = 0\<rparr>]"
    by (simp add: sample_world_def sample_db_def)
  show ?thesis
    using getHotels_returns_all_hotels [OF e1 t1] h by simp
qed

text \<open>
  Claim C5. In a store whose hotel ids are a key, when the hotelId coerces to the id of a
  hotel \<open>h\<close> of the store that has \<open>N\<close> rooms, \<^verbatim>\<open>getHotelRooms\<close> succeeds with
  exactly one entry: the fields of \<open>h\<close> and its \<open>N\<close> rooms, each with the hotelId
  of \<open>h\<close>.
\<close>

theorem getHotelRooms_one_hotel_with_its_rooms:
  assumes "distinct (map hotel_id (hotel_rows (store w)))"
    and "h \<in> set (hotel_rows (store w))"
    and "Number hotelId = Finite (of_int (hotel_id h))"
    and "length (filter (\<lambda>r. room_hotelId r = hotel_id h) (room_rows (store w))) = N"
  shows "\<exists>entry. fst (getHotelRooms Number hotelId w) = Inr [entry]
           \<and> hotel_id entry = hotel_id h \<and> hotel_name entry = hotel_name h
           \<and> hotel_image entry = hotel_image h
           \<and> hotel_createdAt entry = hotel_createdAt h
           \<and> hotel_updatedAt entry = hotel_updatedAt h
           \<and> Rooms entry = filter (\<lambda>r. room_hotelId r = hotel_id h) (room_rows (store w))
           \<and> length (Rooms entry) = N
           \<and> (\<forall>r\<in>set (Rooms entry). room_hotelId r = hotel_id h)"
proof -
  have "filter (\<lambda>x. where_id (Number hotelId) (hotel_id x)) (hotel_rows (store w)) = [h]"
    using filter_key_distinct [OF assms(1,2)] by (simp add: assms(3) where_id_of_int)
  then have "fst (getHotelRooms Number hotelId w) = Inr [include_Rooms (store w) h]"
    by (simp add: getHotelRooms_eq Let_def)
  then show ?thesis
    using assms(4) by (simp add: include_Rooms_def withRooms_def)
qed

theorem getHotelRooms_one_hotel_with_its_rooms_witness:
  "\<exists>entry. fst (getHotelRooms sample_Number ''1'' sample_world) = Inr [entry]
     \<and> hotel_id entry = 1 \<and> hotel_name entry = ''Beach Resort''
     \<and> length (Rooms entry) = 2 \<and> (\<forall>r\<in>set (Rooms entry). room_hotelId r = 1)"
proof -
  let ?h = "\<lparr>hotel_id = 1, hotel_name = ''Beach Resort'', hotel_image = ''beach.png'',
             hotel_createdAt = 0, hotel_updatedAt = 0\<rparr>"
  have d: "distinct (map hotel_id (hotel_rows (store sample_world)))"
    by (simp add: sample_world_def sample_db_def)
  have m: "?h \<in> set (hotel_rows (store sample_world))"
    by (simp add: sample_world_def sample_db_def)
  have n: "sample_Number ''1'' = Finite (of_int (hotel_id ?h))"
    by (simp add: sample_Number_def)
  have c: "length (filter (\<lambda>r. room_hotelId r = hotel_id ?h) (room_rows (store sample_world))) = 2"
    by (simp add: sample_world_def sample_db_def)
  show ?thesis
    using getHotelRooms_one_hotel_with_its_rooms
      [where Number = sample_Number and hotelId = "''1''", OF d m n c]
    by auto
qed

text \<open>
  Claim C6. When the hotelId coerces to a number that is the id of no hotel of the store,
  \<^verbatim>\<open>getHotelRooms\<close> fails with NotFound; so it does for every input that coerces to
  NaN, which is the id of no record.
\<close>

theorem getHotelRooms_NotFound:
  "((\<forall>h\<in>set (hotel_rows (store w)). Number hotelId \<noteq> Finite (of_int (hotel_id h))) \<longrightarrow>
      fst (getHotelRooms Number hotelId w) = Inl notFoundError)
   \<and> (Number hotelId = NaN \<longrightarrow> fst (getHotelRooms Number hotelId w) = Inl notFoundError)"
  by (auto simp: getHotelRooms_eq Let_def where_id_def filter_empty_conv)

theorem getHotelRooms_NotFound_witness:
  "fst (getHotelRooms sample_Number ''0'' sample_world) = Inl notFoundError
   \<and> sample_Number ''abc'' = NaN
   \<and> fst (getHotelRooms sample_Number ''abc'' sample_world) = Inl notFoundError"
proof -
  have z: "\<forall>h\<in>set (hotel_rows (store sample_world)). sample_Number ''0'' \<noteq> Finite (of_int (hotel_id h))"
    by (simp add: sample_world_def sample_db_def sample_Number_def)
  have a: "sample_Number ''abc'' = NaN"
    by (simp add: sample_Number_def)
  show ?thesis
    using z a getHotelRooms_NotFound [of sample_world sample_Number "''0''"]
      getHotelRooms_NotFound [of sample_world sample_Number "''abc''"]
    by simp
qed

text \<open>
  Claim C7. Each controller answers 200 with the result of its service as body when the
  service succeeds, and otherwise the status of the kind of the error the service raised:
  404 for NotFound, 402 for PaymentRequired, 400 for any other. The \<^verbatim>\<open>catch\<close> block of
  \<^verbatim>\<open>getHotels\<close> does so for every error; that of \<^verbatim>\<open>getHotelRooms\<close> for every error
  that is not PaymentRequired, a kind its service never raises.
\<close>

theorem controllers_translate_by_kind:
  "controller_getHotels req w =
     (case getHotels (request_userId req) w of
        (Inr hotels, w1) \<Rightarrow> (Send 200 hotels, w1)
      | (Inl e, w1) \<Rightarrow> (SendStatus (status_by_kind e), w1))
   \<and> controller_getHotelRooms Number req w =
     (case getHotelRooms Number (request_params_hotelId req) w of
        (Inr hotelRooms, w1) \<Rightarrow> (Send 200 hotelRooms, w1)
      | (Inl e, w1) \<Rightarrow> (SendStatus (status_by_kind e), w1))
   \<and> (\<forall>e. (getHotels_catch e :: hotel list response) = SendStatus (status_by_kind e))
   \<and> (\<forall>e. name e \<noteq> ''PaymentRequiredError'' \<longrightarrow>
         (getHotelRooms_catch e :: hotelWithRooms list response) = SendStatus (status_by_kind e))"
proof -
  have "controller_getHotels req w =
     (case getHotels (request_userId req) w of
        (Inr hotels, w1) \<Rightarrow> (Send 200 hotels, w1)
      | (Inl e, w1) \<Rightarrow> (SendStatus (status_by_kind e), w1))"
    by (simp add: controller_getHotels_def getHotels_catch_kind OK_def
        split: prod.splits sum.splits)
  moreover have "controller_getHotelRooms Number req w =
     (case getHotelRooms Number (request_params_hotelId req) w of
        (Inr hotelRooms, w1) \<Rightarrow> (Send 200 hotelRooms, w1)
      | (Inl e, w1) \<Rightarrow> (SendStatus (status_by_kind e), w1))"
  proof (cases "getHotelRooms Number (request_params_hotelId req) w")
    case (Pair r w1)
    show ?thesis
    proof (cases r)
      case (Inl e)
      with Pair have "e = notFoundError"
        using getHotelRooms_error [of Number "request_params_hotelId req" w e] by simp
      then have "name e \<noteq> ''PaymentRequiredError''"
        by (simp add: notFoundError_def)
      with Pair Inl show ?thesis
        by (simp add: controller_getHotelRooms_def getHotelRooms_catch_kind)
    next
      case (Inr hotelRooms)
      with Pair show ?thesis
        by (simp add: controller_getHotelRooms_def OK_def)
    qed
  qed
  ultimately show ?thesis
    by (simp add: getHotels_catch_kind getHotelRooms_catch_kind)
qed

theorem controllers_translate_by_kind_witness:
  "status (fst (controller_getHotels \<lparr>request_userId = 4, request_params_hotelId = ''''\<rparr> sample_world)) = 404
   \<and> status (fst (controller_getHotels \<lparr>request_userId = 2, request_params_hotelId = ''''\<rparr> sample_world)) = 402
   \<and> status (fst (controller_getHotels \<lparr>request_userId = 1, request_params_hotelId = ''''\<rparr> sample_world)) = 200
   \<and> status (fst (controller_getHotelRooms sample_Number
         \<lparr>request_userId = 1, request_params_hotelId = ''0''\<rparr> sample_world)) = 404
   \<and> status (fst (controller_getHotelRooms sample_Number
         \<lparr>request_userId = 1, request_params_hotelId = ''1''\<rparr> sample_world)) = 200
   \<and> (getHotels_catch (ApplicationError ''TypeError'') :: hotel list response) = SendStatus 400
   \<and> (getHotelRooms_catch (ApplicationError ''TypeError'') :: hotelWithRooms list response)
       = SendStatus 400"
proof -
  have g4: "getHotels 4 sample_world =
      (Inl notFoundError, send_query (Enrollment_findFirst 4) sample_world)"
    by (simp add: sample_defs)
  have g2: "fst (getHotels 2 sample_world) = Inl paymentRequiredError"
    by (simp add: sample_defs)
  have g1: "fst (getHotels 1 sample_world) = Inr (hotel_rows sample_db)"
    by (simp add: sample_defs)
  have r0: "fst (getHotelRooms sample_Number ''0'' sample_world) = Inl notFoundError"
    by (simp add: sample_defs)
  have r1: "fst (getHotelRooms sample_Number ''1'' sample_world) =
      Inr [include_Rooms sample_db \<lparr>hotel_id = 1, hotel_name = ''Beach Resort'',
             hotel_image = ''beach.png'', hotel_createdAt = 0, hotel_updatedAt = 0\<rparr>]"
    by (simp add: sample_defs)
  note c = controllers_translate_by_kind
  show ?thesis
    using g4 g2 g1 r0 r1
      c [of "\<lparr>request_userId = 4, request_params_hotelId = ''''\<rparr>" sample_world sample_Number]
      c [of "\<lparr>request_userId = 2, request_params_hotelId = ''''\<rparr>" sample_world sample_Number]
      c [of "\<lparr>request_userId = 1, request_params_hotelId = ''''\<rparr>" sample_world sample_Number]
      c [of "\<lparr>request_userId = 1, request_params_hotelId = ''0''\<rparr>" sample_world sample_Number]
      c [of "\<lparr>request_userId = 1, request_params_hotelId = ''1''\<rparr>" sample_world sample_Number]
    by (simp add: status_by_kind_def notFoundError_def paymentRequiredError_def
        split: prod.splits sum.splits)
qed

text \<open>
  Claim C8. Neither operation modifies the store: after \<^verbatim>\<open>getHotels\<close> and after
  \<^verbatim>\<open>getHotelRooms\<close>, whether they succeed or fail, and after their controllers, the
  store is the one before.
\<close>

theorem hotel_operations_read_only:
  "store (snd (getHotels uid w)) = store w
   \<and> store (snd (getHotelRooms Number hotelId w)) = store w
   \<and> store (snd (controller_getHotels req w)) = store w
   \<and> store (snd (controller_getHotelRooms Number req w)) = store w"
  by (simp add: getHotels_store getHotelRooms_store controller_getHotels_store
      controller_getHotelRooms_store)

theorem hotel_operations_read_only_witness:
  "store (snd (getHotels 1 sample_world)) = sample_db
   \<and> store (snd (getHotels 2 sample_world)) = sample_db
   \<and> store (snd (getHotels 4 sample_world)) = sample_db
   \<and> store (snd (getHotelRooms sample_Number ''1'' sample_world)) = sample_db
   \<and> store (snd (getHotelRooms sample_Number ''abc'' sample_world)) = sample_db"
  using hotel_operations_read_only [of 1 sample_world sample_Number "''1''"]
    hotel_operations_read_only [of 2 sample_world sample_Number "''abc''"]
    hotel_operations_read_only [of 4 sample_world]
  by (simp add: sample_world_def)

text \<open>
  Claim C9. On two worlds that agree on the hotels and the rooms, whatever their
  enrollments, tickets and ticket types, \<^verbatim>\<open>getHotelRooms\<close> returns the same result;
  it never fails with PaymentRequired, and its controller never answers 402.
\<close>

theorem getHotelRooms_ignores_enrollments_and_tickets:
  "(hotel_rows (store w) = hotel_rows (store w') \<and> room_rows (store w) = room_rows (store w') \<longrightarrow>
      fst (getHotelRooms Number hotelId w) = fst (getHotelRooms Number hotelId w'))
   \<and> (\<forall>e. fst (getHotelRooms Number hotelId w) = Inl e \<longrightarrow> name e \<noteq> ''PaymentRequiredError'')
   \<and> status (fst (controller_getHotelRooms Number req w)) \<noteq> PAYMENT_REQUIRED"
proof -
  have a: "hotel_rows (store w) = hotel_rows (store w') \<and> room_rows (store w) = room_rows (store w') \<longrightarrow>
      fst (getHotelRooms Number hotelId w) = fst (getHotelRooms Number hotelId w')"
    using getHotelRooms_fst_store [of w w' Number hotelId] by blast
  have b: "name e \<noteq> ''PaymentRequiredError''" if "fst (getHotelRooms Number hotelId w) = Inl e" for e
    using getHotelRooms_error [OF that] by (simp add: notFoundError_def)
  have c: "status (fst (controller_getHotelRooms Number req w)) \<noteq> PAYMENT_REQUIRED"
    by (simp add: controller_getHotelRooms_def getHotelRooms_catch_def OK_def NOT_FOUND_def
        BAD_REQUEST_def PAYMENT_REQUIRED_def split: prod.splits sum.splits)
  from a b c show ?thesis by blast
qed

theorem getHotelRooms_ignores_enrollments_and_tickets_witness:
  "fst (getHotelRooms sample_Number ''1''
          \<lparr>store = sample_db\<lparr>enrollment_rows := [], ticket_rows := [], ticketType_rows := []\<rparr>,
           issued = [Hotel_findMany]\<rparr>)
     = fst (getHotelRooms sample_Number ''1'' sample_world)
   \<and> fst (getHotelRooms sample_Number ''0'' sample_world) \<noteq> Inl paymentRequiredError"
proof -
  let ?w = "\<lparr>store = sample_db\<lparr>enrollment_rows := [], ticket_rows := [], ticketType_rows := []\<rparr>,
             issued = [Hotel_findMany]\<rparr>"
  have h: "hotel_rows (store ?w) = hotel_rows (store sample_world)
           \<and> room_rows (store ?w) = room_rows (store sample_world)"
    by (simp add: sample_world_def)
  have n: "name paymentRequiredError = ''PaymentRequiredError''"
    by (simp add: paymentRequiredError_def)
  show ?thesis
    using h n
      getHotelRooms_ignores_enrollments_and_tickets [of ?w sample_world sample_Number "''1''"]
      getHotelRooms_ignores_enrollments_and_tickets [of sample_world sample_world sample_Number "''0''"]
    by auto
qed

end
